theory Spec2Isabelle
  imports Complex_Main "HOL-Library.Sublist"
begin

section \<open>Python values that reach the server\<close>

text \<open>
  The server (\<^verbatim>\<open>server.py\<close>) receives its arguments and the body of the external
  Places API as decoded JSON. A Python \<^verbatim>\<open>str\<close> is a sequence of Unicode code points,
  modelled as a list of naturals; \<open>ascii\<close> turns an ASCII literal into such a list.
  A Python \<^verbatim>\<open>float\<close> is a rational (every finite double is one), an infinity or NaN;
  only comparisons are made on floats, never arithmetic. A \<^verbatim>\<open>dict\<close> is an association
  list in insertion order, read with \<open>map_of\<close>.
\<close>

type_synonym pystr = "nat list"

definition ascii :: "string \<Rightarrow> pystr" where
  "ascii s = map of_char s"

datatype pyfloat = Finite rat | PosInf | NegInf | NaN

datatype json =
    JNull
  | JBool bool
  | JInt int
  | JFloat pyfloat
  | JStr pystr
  | JList "json list"
  | JDict "(pystr \<times> json) list"

text \<open>
  Faults of the Python runtime on ill-typed operands. The text that \<^verbatim>\<open>str(e)\<close> gives for
  them depends on the interpreter, and is a parameter of the model (\<open>fault_text\<close>).
\<close>

datatype fault =
    NotOrdered json json     \<comment> \<open>\<^verbatim>\<open>a >= b\<close> on operands without an order\<close>
  | NotContainer json        \<comment> \<open>\<^verbatim>\<open>s in v\<close> on a value that is no container\<close>
  | BadSubscript json        \<comment> \<open>\<^verbatim>\<open>v[s]\<close> on a value not indexed by strings\<close>
  | NotIterable json         \<comment> \<open>\<^verbatim>\<open>for x in v\<close> on a value that is not iterable\<close>
  | NoGetAttribute json      \<comment> \<open>\<^verbatim>\<open>v.get\<close> on a value that is no dict\<close>

datatype exn =
    HTTPStatusError pystr int pystr
      \<comment> \<open>\<^verbatim>\<open>str(e)\<close>, \<^verbatim>\<open>e.response.status_code\<close>, \<^verbatim>\<open>e.response.text\<close>\<close>
  | ValueError pystr            \<comment> \<open>raised by the server itself, with its message\<close>
  | TypeError fault
  | AttributeError fault
  | KeyError pystr
  | OtherException pystr        \<comment> \<open>any other \<^verbatim>\<open>Exception\<close> of the HTTP call, with \<^verbatim>\<open>str(e)\<close>\<close>

subsection \<open>Truthiness, numbers, comparison\<close>

fun truthy :: "json \<Rightarrow> bool" where
  "truthy JNull = False"
| "truthy (JBool b) = b"
| "truthy (JInt i) = (i \<noteq> 0)"
| "truthy (JFloat f) = (f \<noteq> Finite 0)"
| "truthy (JStr s) = (s \<noteq> [])"
| "truthy (JList xs) = (xs \<noteq> [])"
| "truthy (JDict d) = (d \<noteq> [])"

text \<open>\<^verbatim>\<open>bool\<close> is a subclass of \<^verbatim>\<open>int\<close>: the three numeric types compare by value.\<close>

fun as_number :: "json \<Rightarrow> pyfloat option" where
  "as_number (JBool b) = Some (Finite (if b then 1 else 0))"
| "as_number (JInt i) = Some (Finite (of_int i))"
| "as_number (JFloat f) = Some f"
| "as_number _ = None"

fun num_ge :: "pyfloat \<Rightarrow> pyfloat \<Rightarrow> bool" where
  "num_ge NaN _ = False"
| "num_ge _ NaN = False"
| "num_ge PosInf _ = True"
| "num_ge _ NegInf = True"
| "num_ge NegInf _ = False"
| "num_ge _ PosInf = False"
| "num_ge (Finite a) (Finite b) = (b \<le> a)"

fun num_eq :: "pyfloat \<Rightarrow> pyfloat \<Rightarrow> bool" where
  "num_eq NaN _ = False"
| "num_eq _ NaN = False"
| "num_eq a b = (a = b)"

text \<open>Strings are ordered lexicographically by code point.\<close>

fun str_ge :: "pystr \<Rightarrow> pystr \<Rightarrow> bool" where
  "str_ge _ [] = True"
| "str_ge [] (y # ys) = False"
| "str_ge (x # xs) (y # ys) = (if x = y then str_ge xs ys else y < x)"

text \<open>
  \<^verbatim>\<open>a == b\<close>: numbers by value, strings, lists and dicts by content, values of different
  kinds are unequal; it never raises on decoded JSON. (The interpreter's shortcut for two
  references to one object only differs on a shared NaN object, which the arguments and
  the API response, decoded separately, do not have.)
\<close>

fun py_eq :: "json \<Rightarrow> json \<Rightarrow> bool" where
  "py_eq (JList xs) b = (case b of JList ys \<Rightarrow> list_all2 py_eq xs ys | _ \<Rightarrow> False)"
| "py_eq (JDict d) b =
     (case b of
        JDict e \<Rightarrow> length d = length e \<and>
          list_all (\<lambda>(k, v). case map_of e k of None \<Rightarrow> False | Some w \<Rightarrow> py_eq v w) d
      | _ \<Rightarrow> False)"
| "py_eq (JStr s) b = (b = JStr s)"
| "py_eq JNull b = (b = JNull)"
| "py_eq a b =
     (case (as_number a, as_number b) of (Some x, Some y) \<Rightarrow> num_eq x y | _ \<Rightarrow> False)"

text \<open>
  \<^verbatim>\<open>a >= b\<close>: defined between numbers, between strings and between lists (the first
  unequal pair of elements decides, else the lengths); a \<^verbatim>\<open>TypeError\<close> otherwise.
\<close>

fun py_ge :: "json \<Rightarrow> json \<Rightarrow> exn + bool"
  and list_ge :: "json list \<Rightarrow> json list \<Rightarrow> exn + bool" where
  "py_ge (JList xs) b =
     (case b of JList ys \<Rightarrow> list_ge xs ys | _ \<Rightarrow> Inl (TypeError (NotOrdered (JList xs) b)))"
| "py_ge (JStr s) b =
     (case b of JStr t \<Rightarrow> Inr (str_ge s t) | _ \<Rightarrow> Inl (TypeError (NotOrdered (JStr s) b)))"
| "py_ge a b =
     (case (as_number a, as_number b) of
        (Some x, Some y) \<Rightarrow> Inr (num_ge x y)
      | _ \<Rightarrow> Inl (TypeError (NotOrdered a b)))"
| "list_ge _ [] = Inr True"
| "list_ge [] (y # ys) = Inr False"
| "list_ge (x # xs) (y # ys) = (if py_eq x y then list_ge xs ys else py_ge x y)"

subsection \<open>Containers and strings\<close>

text \<open>\<^verbatim>\<open>d.get(key, default)\<close> on a dict.\<close>

definition dict_get :: "(pystr \<times> json) list \<Rightarrow> pystr \<Rightarrow> json \<Rightarrow> json" where
  "dict_get d key dflt = (case map_of d key of Some v \<Rightarrow> v | None \<Rightarrow> dflt)"

text \<open>
  \<^verbatim>\<open>needle in hay\<close> for a string \<open>needle\<close>: substring of a string, element of a list,
  key of a dict; a \<^verbatim>\<open>TypeError\<close> on anything else.
\<close>

fun py_contains :: "pystr \<Rightarrow> json \<Rightarrow> exn + bool" where
  "py_contains needle (JStr s) = Inr (sublist needle s)"
| "py_contains needle (JList xs) = Inr (JStr needle \<in> set xs)"
| "py_contains needle (JDict d) = Inr (map_of d needle \<noteq> None)"
| "py_contains needle v = Inl (TypeError (NotContainer v))"

text \<open>\<^verbatim>\<open>v[key]\<close> for a string \<open>key\<close>.\<close>

fun py_getitem :: "json \<Rightarrow> pystr \<Rightarrow> exn + json" where
  "py_getitem (JDict d) key =
     (case map_of d key of Some v \<Rightarrow> Inr v | None \<Rightarrow> Inl (KeyError key))"
| "py_getitem v key = Inl (TypeError (BadSubscript v))"

text \<open>
  \<^verbatim>\<open>for x in v\<close>: the elements of a list, the keys of a dict, the characters of a string.
\<close>

fun py_iter :: "json \<Rightarrow> exn + json list" where
  "py_iter (JList xs) = Inr xs"
| "py_iter (JDict d) = Inr (map (\<lambda>kv. JStr (fst kv)) d)"
| "py_iter (JStr s) = Inr (map (\<lambda>c. JStr [c]) s)"
| "py_iter v = Inl (TypeError (NotIterable v))"

text \<open>Decimal rendering of an integer, as \<^verbatim>\<open>str\<close> and f-strings give it.\<close>

fun str_nat :: "nat \<Rightarrow> pystr" where
  "str_nat n = (if n < 10 then [48 + n] else str_nat (n div 10) @ [48 + n mod 10])"

declare str_nat.simps [simp del]

definition str_int :: "int \<Rightarrow> pystr" where
  "str_int i = (if i < 0 then 45 # str_nat (nat (- i)) else str_nat (nat i))"

section \<open>The server's surroundings\<close>

text \<open>
  What the handler reads from outside: the process environment (\<^verbatim>\<open>os.getenv\<close>), the
  POST to the Places API together with \<^verbatim>\<open>raise_for_status\<close> and \<^verbatim>\<open>response.json()\<close>
  (lines 152 to 155: either the decoded body or the exception raised; only exceptions
  deriving from \<^verbatim>\<open>Exception\<close> are modelled), and the interpreter's renderings:
  \<^verbatim>\<open>repr\<close> of a value that is not a string and \<^verbatim>\<open>str(e)\<close> of a runtime fault.
\<close>

record request =
  url :: pystr
  headers :: "(pystr \<times> pystr) list"
  payload :: json
  timeout :: rat

record world =
  getenv :: "pystr \<Rightarrow> pystr option"
  post :: "request \<Rightarrow> exn + json"
  py_repr :: "json \<Rightarrow> pystr"
  fault_text :: "fault \<Rightarrow> pystr"

text \<open>\<^verbatim>\<open>str(v)\<close>: a string is itself, any other decoded value is its \<^verbatim>\<open>repr\<close>.\<close>

fun py_str :: "world \<Rightarrow> json \<Rightarrow> pystr" where
  "py_str w (JStr s) = s"
| "py_str w v = py_repr w v"

text \<open>\<^verbatim>\<open>str(e)\<close>; the text of a \<^verbatim>\<open>KeyError\<close> is the \<^verbatim>\<open>repr\<close> of the key.\<close>

fun str_exn :: "world \<Rightarrow> exn \<Rightarrow> pystr" where
  "str_exn w (ValueError m) = m"
| "str_exn w (OtherException m) = m"
| "str_exn w (TypeError f) = fault_text w f"
| "str_exn w (AttributeError f) = fault_text w f"
| "str_exn w (KeyError k) = py_repr w (JStr k)"
| "str_exn w (HTTPStatusError m c t) = m"

text \<open>
  The text of a \<^verbatim>\<open>TextContent\<close> is always the result of \<^verbatim>\<open>json.dumps\<close> with
  \<^verbatim>\<open>ensure_ascii=False\<close>; it is kept as the document serialised and the \<^verbatim>\<open>indent\<close>
  option. Serialisation itself (float rendering, escaping) is not modelled.
\<close>

datatype rendered = Dumps json "nat option"

datatype content = TextContent rendered   \<comment> \<open>\<^verbatim>\<open>TextContent(type="text", text=...)\<close>\<close>

datatype 'a outcome = Returns 'a | Raises exn

record server_state =
  MAPS_API_KEY :: "pystr option"

section \<open>String constants of the server\<close>

definition LOCALITY :: pystr where
  \<comment> \<open>the city's name in Japanese (three characters, read "Chigasaki")\<close>
  "LOCALITY = [0x8305, 0x30F6, 0x5D0E]"

definition LOCALITY_ROMAN :: pystr where
  "LOCALITY_ROMAN = ascii ''Chigasaki''"

definition UNKNOWN_NAME :: pystr where
  \<comment> \<open>"unknown"\<close>
  "UNKNOWN_NAME = [0x4E0D, 0x660E]"

definition UNKNOWN_ADDRESS :: pystr where
  \<comment> \<open>"address unknown"\<close>
  "UNKNOWN_ADDRESS = [0x4F4F, 0x6240, 0x4E0D, 0x660E]"

definition MSG_UNKNOWN_TOOL :: pystr where
  \<comment> \<open>"unknown tool: "\<close>
  "MSG_UNKNOWN_TOOL = [0x672A, 0x77E5, 0x306E, 0x30C4, 0x30FC, 0x30EB] @ ascii '': ''"

definition MSG_NO_QUERY :: pystr where
  \<comment> \<open>"no search query was given."\<close>
  "MSG_NO_QUERY = [0x691C, 0x7D22, 0x30AF, 0x30A8, 0x30EA, 0x304C, 0x6307, 0x5B9A, 0x3055,
     0x308C, 0x3066, 0x3044, 0x307E, 0x305B, 0x3093, 0x3002]"

definition MSG_NO_KEY :: pystr where
  \<comment> \<open>"the environment variable MAPS_API_KEY is not set. Check the .env file."\<close>
  "MSG_NO_KEY = ascii ''MAPS_API_KEY'' @ [0x74B0, 0x5883, 0x5909, 0x6570, 0x304C, 0x8A2D,
     0x5B9A, 0x3055, 0x308C, 0x3066, 0x3044, 0x307E, 0x305B, 0x3093, 0x3002] @ ascii ''.env'' @
     [0x30D5, 0x30A1, 0x30A4, 0x30EB, 0x3092, 0x78BA, 0x8A8D, 0x3057, 0x3066, 0x304F, 0x3060,
      0x3055, 0x3044, 0x3002]"

definition MSG_HTTP :: pystr where
  \<comment> \<open>"API call error (status "\<close>
  "MSG_HTTP = ascii ''API'' @ [0x547C, 0x3073, 0x51FA, 0x3057, 0x30A8, 0x30E9, 0x30FC] @
     ascii '' ('' @ [0x30B9, 0x30C6, 0x30FC, 0x30BF, 0x30B9] @ ascii '' ''"

definition MSG_SEARCH :: pystr where
  \<comment> \<open>"an error occurred during the search: "\<close>
  "MSG_SEARCH = [0x691C, 0x7D22, 0x4E2D, 0x306B, 0x30A8, 0x30E9, 0x30FC, 0x304C, 0x767A,
     0x751F, 0x3057, 0x307E, 0x3057, 0x305F] @ ascii '': ''"

definition TOOL_DESCRIPTION :: pystr where
  "TOOL_DESCRIPTION = [0x8305, 0x30F6, 0x5D0E, 0x5E02, 0x5185, 0x306E, 0x30EC, 0x30B9, 0x30C8,
     0x30E9, 0x30F3, 0x3084, 0x30B0, 0x30EB, 0x30E1, 0x30B9, 0x30DD, 0x30C3, 0x30C8, 0x3092,
     0x691C, 0x7D22, 0x3057, 0x307E, 0x3059, 0x3002] @ ascii ''Google Maps Places API'' @
     [0x306E, 0x30C6, 0x30AD, 0x30B9, 0x30C8, 0x691C, 0x7D22, 0x3092, 0x4F7F, 0x7528, 0x3057,
      0x3066, 0x3001, 0x6307, 0x5B9A, 0x3055, 0x308C, 0x305F, 0x30AF, 0x30A8, 0x30EA, 0x306B,
      0x4E00, 0x81F4, 0x3059, 0x308B, 0x5834, 0x6240, 0x3092, 0x691C, 0x7D22, 0x3057, 0x307E,
      0x3059, 0x3002, 0x8A55, 0x4FA1, 0x304C] @ ascii ''4.0'' @
     [0x4EE5, 0x4E0A, 0x306E, 0x5834, 0x6240, 0x306E, 0x307F, 0x3092, 0x8FD4, 0x3057, 0x307E,
      0x3059, 0x3002]"

definition QUERY_DESCRIPTION :: pystr where
  "QUERY_DESCRIPTION = [0x691C, 0x7D22, 0x30AF, 0x30A8, 0x30EA, 0xFF08, 0x4F8B] @ ascii '': '' @
     [0x27, 0x8305, 0x30F6, 0x5D0E] @ ascii '' '' @ [0x30E9, 0x30F3, 0x30C1, 0x27] @
     ascii '', '' @ [0x27] @ ascii ''Delicious lunch spots in Chigasaki City'' @ [0x27, 0xFF09]"

definition MIN_RATING_DESCRIPTION :: pystr where
  "MIN_RATING_DESCRIPTION = [0x6700, 0x5C0F, 0x8A55, 0x4FA1, 0xFF08, 0x30C7, 0x30D5, 0x30A9,
     0x30EB, 0x30C8] @ ascii '': 4.0'' @ [0xFF09]"

section \<open>The tool list\<close>

record tool =
  name :: pystr
  description :: pystr
  inputSchema :: json

definition list_tools :: "tool list" where
  "list_tools =
     [\<lparr> name = ascii ''search_places'',
        description = TOOL_DESCRIPTION,
        inputSchema = JDict
          [(ascii ''type'', JStr (ascii ''object'')),
           (ascii ''properties'', JDict
              [(ascii ''query'', JDict
                  [(ascii ''type'', JStr (ascii ''string'')),
                   (ascii ''description'', JStr QUERY_DESCRIPTION)]),
               (ascii ''min_rating'', JDict
                  [(ascii ''type'', JStr (ascii ''number'')),
                   (ascii ''description'', JStr MIN_RATING_DESCRIPTION),
                   (ascii ''default'', JFloat (Finite 4))])]),
           (ascii ''required'', JList [JStr (ascii ''query'')])] \<rparr>]"

section \<open>The search handler\<close>

text \<open>Lines 135 to 137: the query is kept when it mentions the city, prefixed otherwise.\<close>

definition bias_query :: "world \<Rightarrow> json \<Rightarrow> exn + json" where
  "bias_query w query =
     (case py_contains LOCALITY query of
        Inl e \<Rightarrow> Inl e
      | Inr True \<Rightarrow> Inr query
      | Inr False \<Rightarrow>
          (case py_contains LOCALITY_ROMAN query of
             Inl e \<Rightarrow> Inl e
           | Inr True \<Rightarrow> Inr query
           | Inr False \<Rightarrow> Inr (JStr (LOCALITY @ ascii '' '' @ py_str w query))))"

text \<open>Lines 141 to 153: the request sent to the Places API.\<close>

definition places_request :: "pystr \<Rightarrow> json \<Rightarrow> request" where
  "places_request key search_query =
     \<lparr> url = ascii ''https://places.googleapis.com/v1/places:searchText'',
       headers =
         [(ascii ''Content-Type'', ascii ''application/json''),
          (ascii ''X-Goog-Api-Key'', key),
          (ascii ''X-Goog-FieldMask'',
             ascii ''places.id,places.displayName,places.rating,places.userRatingCount,''
             @ ascii ''places.formattedAddress,places.types,places.location'')],
       payload = JDict
         [(ascii ''textQuery'', search_query), (ascii ''languageCode'', JStr (ascii ''ja''))],
       timeout = 30 \<rparr>"

text \<open>Line 161: \<^verbatim>\<open>place.get("rating", 0)\<close>; a place without a rating counts as rated 0.\<close>

definition rating_of :: "(pystr \<times> json) list \<Rightarrow> json" where
  "rating_of place = dict_get place (ascii ''rating'') (JInt 0)"

text \<open>Lines 165 to 179: the record built for a place that passed the filter.\<close>

definition place_info :: "world \<Rightarrow> (pystr \<times> json) list \<Rightarrow> json" where
  "place_info w place =
     (let display_name = dict_get place (ascii ''displayName'') (JDict []);
          name = (case display_name of
                    JDict dn \<Rightarrow> dict_get dn (ascii ''text'') (JStr UNKNOWN_NAME)
                  | _ \<Rightarrow> JStr (py_str w display_name));
          formatted_address = dict_get place (ascii ''formattedAddress'') (JStr UNKNOWN_ADDRESS);
          location = dict_get place (ascii ''location'') (JDict [])
      in JDict
        [(ascii ''name'', name),
         (ascii ''rating'', rating_of place),
         (ascii ''user_ratings_total'', dict_get place (ascii ''userRatingCount'') (JInt 0)),
         (ascii ''address'', formatted_address),
         (ascii ''place_id'', dict_get place (ascii ''id'') (JStr [])),
         (ascii ''types'', dict_get place (ascii ''types'') (JList [])),
         (ascii ''geometry'',
            if truthy location then JDict [(ascii ''location'', location)] else JDict [])])"

text \<open>
  Lines 161 to 180, one turn of the loop: \<^verbatim>\<open>place.get\<close> needs a dict, the comparison
  may raise; the result is the record to append, if any.
\<close>

definition place_step :: "world \<Rightarrow> json \<Rightarrow> json \<Rightarrow> exn + json option" where
  "place_step w min_rating place =
     (case place of
        JDict d \<Rightarrow>
          (case py_ge (rating_of d) min_rating of
             Inl e \<Rightarrow> Inl e
           | Inr ok \<Rightarrow> Inr (if ok then Some (place_info w d) else None))
      | _ \<Rightarrow> Inl (AttributeError (NoGetAttribute place)))"

text \<open>The loop of line 160, with \<open>places\<close> the list built so far.\<close>

fun collect :: "world \<Rightarrow> json \<Rightarrow> json list \<Rightarrow> json list \<Rightarrow> exn + json list" where
  "collect w min_rating places [] = Inr places"
| "collect w min_rating places (place # rest) =
     (case place_step w min_rating place of
        Inl e \<Rightarrow> Inl e
      | Inr None \<Rightarrow> collect w min_rating places rest
      | Inr (Some info) \<Rightarrow> collect w min_rating (places @ [info]) rest)"

text \<open>Lines 159 and 160: what the loop runs over.\<close>

definition response_places :: "json \<Rightarrow> exn + json list" where
  "response_places places_result =
     (case py_contains (ascii ''places'') places_result of
        Inl e \<Rightarrow> Inl e
      | Inr False \<Rightarrow> Inr []
      | Inr True \<Rightarrow>
          (case py_getitem places_result (ascii ''places'') of
             Inl e \<Rightarrow> Inl e
           | Inr v \<Rightarrow> py_iter v))"

definition success_document :: "json \<Rightarrow> json \<Rightarrow> json list \<Rightarrow> json" where
  "success_document query min_rating places =
     JDict [(ascii ''query'', query),
            (ascii ''min_rating'', min_rating),
            (ascii ''count'', JInt (int (length places))),
            (ascii ''places'', JList places)]"

definition error_result :: "pystr \<Rightarrow> content list" where
  "error_result error_message =
     [TextContent (Dumps (JDict [(ascii ''error'', JStr error_message)]) None)]"

text \<open>
  The body of the \<^verbatim>\<open>try\<close> (lines 135 to 194): the requests made, and the value returned
  or the exception raised.
\<close>

definition search :: "world \<Rightarrow> pystr \<Rightarrow> json \<Rightarrow> json \<Rightarrow> request list \<times> (exn + content list)" where
  "search w key query min_rating =
     (case bias_query w query of
        Inl e \<Rightarrow> ([], Inl e)
      | Inr search_query \<Rightarrow>
          (let req = places_request key search_query in
           ([req],
            case post w req of
              Inl e \<Rightarrow> Inl e
            | Inr places_result \<Rightarrow>
                (case response_places places_result of
                   Inl e \<Rightarrow> Inl e
                 | Inr raw \<Rightarrow>
                     (case collect w min_rating [] raw of
                        Inl e \<Rightarrow> Inl e
                      | Inr places \<Rightarrow>
                          Inr [TextContent
                                 (Dumps (success_document query min_rating places) (Some 2))])))))"

text \<open>The two \<^verbatim>\<open>except\<close> clauses (lines 196 to 203).\<close>

fun on_exception :: "world \<Rightarrow> exn \<Rightarrow> content list" where
  "on_exception w (HTTPStatusError m status_code response_text) =
     error_result (MSG_HTTP @ str_int status_code @ ascii ''): '' @ response_text)"
| "on_exception w e = error_result (MSG_SEARCH @ str_exn w e)"

text \<open>Lines 125 and 126: the two arguments read, with their defaults.\<close>

definition arg_query :: "(pystr \<times> json) list \<Rightarrow> json" where
  "arg_query arguments = dict_get arguments (ascii ''query'') (JStr [])"

definition arg_min_rating :: "(pystr \<times> json) list \<Rightarrow> json" where
  "arg_min_rating arguments = dict_get arguments (ascii ''min_rating'') (JFloat (Finite 4))"

text \<open>Lines 125 to 203, with the key in hand.\<close>

definition search_with_key ::
  "world \<Rightarrow> pystr \<Rightarrow> (pystr \<times> json) list \<Rightarrow> request list \<times> content list outcome" where
  "search_with_key w key arguments =
     (let query = arg_query arguments;
          min_rating = arg_min_rating arguments
      in if \<not> truthy query then ([], Raises (ValueError MSG_NO_QUERY))
         else (case search w key query min_rating of
                 (calls, Inr result) \<Rightarrow> (calls, Returns result)
               | (calls, Inl e) \<Rightarrow> (calls, Returns (on_exception w e))))"

text \<open>
  \<^verbatim>\<open>handle_search_places\<close>: the new value of the global \<^verbatim>\<open>MAPS_API_KEY\<close>, the requests
  made to the Places API, and the outcome. Lines 119 to 123 read the environment only
  while the global is \<^verbatim>\<open>None\<close>, and return at once when the value read is \<^verbatim>\<open>None\<close> or
  empty (the global then holds what was read).
\<close>

definition handle_search_places ::
  "world \<Rightarrow> server_state \<Rightarrow> (pystr \<times> json) list
     \<Rightarrow> server_state \<times> request list \<times> content list outcome" where
  "handle_search_places w s arguments =
     (case MAPS_API_KEY s of
        Some key \<Rightarrow> (s, search_with_key w key arguments)
      | None \<Rightarrow>
          (let s' = s\<lparr>MAPS_API_KEY := getenv w (ascii ''MAPS_API_KEY'')\<rparr> in
           case MAPS_API_KEY s' of
             None \<Rightarrow> (s', [], Returns (error_result MSG_NO_KEY))
           | Some key \<Rightarrow>
               if key = [] then (s', [], Returns (error_result MSG_NO_KEY))
               else (s', search_with_key w key arguments)))"

text \<open>\<^verbatim>\<open>call_tool\<close> (lines 95 to 98).\<close>

definition call_tool ::
  "world \<Rightarrow> server_state \<Rightarrow> pystr \<Rightarrow> (pystr \<times> json) list
     \<Rightarrow> server_state \<times> request list \<times> content list outcome" where
  "call_tool w s tool_name arguments =
     (if tool_name = ascii ''search_places'' then handle_search_places w s arguments
      else (s, [], Raises (ValueError (MSG_UNKNOWN_TOOL @ tool_name))))"

text \<open>
  Loading the module (lines 29 to 41) fills the environment from the \<^verbatim>\<open>.env\<close> file and
  sets the global to \<^verbatim>\<open>None\<close>; it does not read the key.
\<close>

definition startup :: "world \<Rightarrow> server_state" where
  "startup w = \<lparr> MAPS_API_KEY = None \<rparr>"

section \<open>Reading an outcome\<close>

text \<open>
  The client (\<^verbatim>\<open>client.py\<close>, line 112) takes the decoded outcome for the error variant
  when it has the key \<^verbatim>\<open>error\<close>, and reads the fields of a success otherwise.
\<close>

definition is_error :: "json \<Rightarrow> bool" where
  "is_error data = (py_contains (ascii ''error'') data = Inr True)"

definition field :: "json \<Rightarrow> pystr \<Rightarrow> json option" where
  "field data key = (case data of JDict d \<Rightarrow> map_of d key | _ \<Rightarrow> None)"

text \<open>
  The key an invocation works with once lines 119 to 121 have run: the cached global, else
  a non-empty value of the environment variable; none otherwise.
\<close>

definition available_key :: "world \<Rightarrow> server_state \<Rightarrow> pystr option" where
  "available_key w s =
     (case MAPS_API_KEY s of
        Some key \<Rightarrow> Some key
      | None \<Rightarrow>
          (case getenv w (ascii ''MAPS_API_KEY'') of
             None \<Rightarrow> None
           | Some key \<Rightarrow> if key = [] then None else Some key))"

section \<open>Example inputs\<close>

text \<open>
  A world whose environment holds at most the API key and whose Places API answers every
  request alike; the arguments the client sends (\<^verbatim>\<open>client.py\<close>, lines 95 to 99); and a
  response with a place above the threshold, one below it, and one exactly on it that
  has nothing but a rating.
\<close>

definition example_world :: "pystr option \<Rightarrow> (exn + json) \<Rightarrow> world" where
  "example_world key response =
     \<lparr> getenv = (\<lambda>n. if n = ascii ''MAPS_API_KEY'' then key else None),
       post = (\<lambda>req. response),
       py_repr = (\<lambda>v. ascii ''repr''),
       fault_text = (\<lambda>f. ascii ''fault'') \<rparr>"

definition example_arguments :: "(pystr \<times> json) list" where
  "example_arguments =
     [(ascii ''location'', JStr (ascii ''Fujisawa'')),
      (ascii ''query'', JStr (ascii ''ramen'')),
      (ascii ''min_rating'', JFloat (Finite 4))]"

definition place_above :: "(pystr \<times> json) list" where
  "place_above =
     [(ascii ''id'', JStr (ascii ''p1'')),
      (ascii ''displayName'', JDict [(ascii ''text'', JStr (ascii ''Menya''))]),
      (ascii ''rating'', JFloat (Finite (42 / 10))),
      (ascii ''userRatingCount'', JInt 120),
      (ascii ''formattedAddress'', JStr (ascii ''1-1 Chigasaki'')),
      (ascii ''types'', JList [JStr (ascii ''restaurant'')]),
      (ascii ''location'', JDict [(ascii ''latitude'', JFloat (Finite (3533 / 100))),
                                  (ascii ''longitude'', JFloat (Finite (13940 / 100)))])]"

definition place_below :: "(pystr \<times> json) list" where
  "place_below =
     [(ascii ''id'', JStr (ascii ''p2'')),
      (ascii ''displayName'', JDict [(ascii ''text'', JStr (ascii ''Soba''))]),
      (ascii ''rating'', JFloat (Finite (39 / 10)))]"

definition place_on_boundary :: "(pystr \<times> json) list" where
  "place_on_boundary = [(ascii ''rating'', JInt 4)]"

definition example_response :: json where
  "example_response =
     JDict [(ascii ''places'', JList [JDict place_above, JDict place_below, JDict place_on_boundary])]"

definition example_state :: server_state where
  "example_state = \<lparr> MAPS_API_KEY = Some (ascii ''k'') \<rparr>"

definition serving_world :: world where
  "serving_world = example_world None (Inr example_response)"

definition example_document :: json where
  "example_document =
     success_document (JStr (ascii ''ramen'')) (JFloat (Finite 4))
       [place_info serving_world place_above, place_info serving_world place_on_boundary]"

text \<open>The API answering 403, and the network failing.\<close>

definition forbidden_world :: world where
  "forbidden_world =
     example_world None (Inl (HTTPStatusError (ascii ''Client error'') 403 (ascii ''Forbidden'')))"

definition offline_world :: world where
  "offline_world = example_world None (Inl (OtherException (ascii ''timed out'')))"

text \<open>
  The request the handler makes for the example arguments with the key \<^verbatim>\<open>k\<close>, and the
  document it returns for the example response, both written out in full.
\<close>

definition example_request :: request where
  "example_request =
     \<lparr> url = ascii ''https://places.googleapis.com/v1/places:searchText'',
       headers =
         [(ascii ''Content-Type'', ascii ''application/json''),
          (ascii ''X-Goog-Api-Key'', ascii ''k''),
          (ascii ''X-Goog-FieldMask'',
             ascii ''places.id,places.displayName,places.rating,places.userRatingCount,''
             @ ascii ''places.formattedAddress,places.types,places.location'')],
       payload = JDict
         [(ascii ''textQuery'', JStr ([0x8305, 0x30F6, 0x5D0E] @ ascii '' ramen'')),
          (ascii ''languageCode'', JStr (ascii ''ja''))],
       timeout = 30 \<rparr>"

definition example_outcome :: "(pystr \<times> json) list" where
  "example_outcome =
     [(ascii ''query'', JStr (ascii ''ramen'')),
      (ascii ''min_rating'', JFloat (Finite 4)),
      (ascii ''count'', JInt 2),
      (ascii ''places'', JList
         [JDict
            [(ascii ''name'', JStr (ascii ''Menya'')),
             (ascii ''rating'', JFloat (Finite (42 / 10))),
             (ascii ''user_ratings_total'', JInt 120),
             (ascii ''address'', JStr (ascii ''1-1 Chigasaki'')),
             (ascii ''place_id'', JStr (ascii ''p1'')),
             (ascii ''types'', JList [JStr (ascii ''restaurant'')]),
             (ascii ''geometry'', JDict
                [(ascii ''location'', JDict
                    [(ascii ''latitude'', JFloat (Finite (3533 / 100))),
                     (ascii ''longitude'', JFloat (Finite (13940 / 100)))])])],
          JDict
            [(ascii ''name'', JStr [0x4E0D, 0x660E]),
             (ascii ''rating'', JInt 4),
             (ascii ''user_ratings_total'', JInt 0),
             (ascii ''address'', JStr [0x4F4F, 0x6240, 0x4E0D, 0x660E]),
             (ascii ''place_id'', JStr []),
             (ascii ''types'', JList []),
             (ascii ''geometry'', JDict [])]])]"

text \<open>An environment whose \<^verbatim>\<open>.env\<close> file has the line \<^verbatim>\<open>MAPS_API_KEY=\<close>: set, but empty.\<close>

definition empty_key_world :: world where
  "empty_key_world = example_world (Some []) (Inr example_response)"

section \<open>Facts about the handler\<close>

subsection \<open>With and without a key\<close>

lemma handle_with_key:
  "available_key w s = Some key \<Longrightarrow>
   handle_search_places w s arguments =
     (s\<lparr>MAPS_API_KEY := Some key\<rparr>, search_with_key w key arguments)"
  by (auto simp: available_key_def handle_search_places_def Let_def
      split: option.splits if_splits)

lemma handle_without_key:
  "available_key w s = None \<Longrightarrow>
   handle_search_places w s arguments =
     (s\<lparr>MAPS_API_KEY := getenv w (ascii ''MAPS_API_KEY'')\<rparr>, [],
      Returns (error_result MSG_NO_KEY))"
  by (auto simp: available_key_def handle_search_places_def Let_def
      split: option.splits if_splits)

subsection \<open>Error and success documents\<close>

lemma is_error_error_document [simp]:
  "is_error (JDict [(ascii ''error'', v)])"
  by (simp add: is_error_def)

lemma not_is_error_success [simp]:
  "\<not> is_error (success_document q m ps)"
  by (simp add: is_error_def success_document_def ascii_def)

lemma is_error_dict: "is_error (JDict out) = (map_of out (ascii ''error'') \<noteq> None)"
  by (simp add: is_error_def)

lemma on_exception_error:
  "\<exists>msg. on_exception w e = error_result msg"
  by (cases e) (simp_all, blast+)


lemma success_fields:
  "field (success_document q m ps) (ascii ''query'') = Some q"
  "field (success_document q m ps) (ascii ''min_rating'') = Some m"
  "field (success_document q m ps) (ascii ''count'') = Some (JInt (int (length ps)))"
  "field (success_document q m ps) (ascii ''places'') = Some (JList ps)"
  by (simp_all add: success_document_def field_def ascii_def)

subsection \<open>The loop over the places\<close>

text \<open>
  When the loop ends without an exception, every place was a dict with a rating that
  compares with the threshold, and the list built is the records of those that passed, in
  the order of the response.
\<close>

lemma collect_acc:
  "collect w m acc raw = Inr ps \<Longrightarrow>
   \<exists>ds. raw = map JDict ds \<and>
        ps = acc @ map (place_info w) (filter (\<lambda>d. py_ge (rating_of d) m = Inr True) ds) \<and>
        list_all (\<lambda>d. py_ge (rating_of d) m = Inr True \<or> py_ge (rating_of d) m = Inr False) ds"
proof (induction raw arbitrary: acc ps)
  case Nil
  then show ?case by simp
next
  case (Cons place rest)
  from Cons.prems obtain d where d: "place = JDict d"
    by (cases place) (simp_all add: place_step_def)
  from Cons.prems d obtain ok where ok: "py_ge (rating_of d) m = Inr ok"
    by (cases "py_ge (rating_of d) m") (simp_all add: place_step_def)
  show ?case
  proof (cases ok)
    case True
    with Cons.prems d ok have "collect w m (acc @ [place_info w d]) rest = Inr ps"
      by (simp add: place_step_def)
    from Cons.IH [OF this] obtain ds where
      "rest = map JDict ds"
      "ps = (acc @ [place_info w d]) @
         map (place_info w) (filter (\<lambda>d. py_ge (rating_of d) m = Inr True) ds)"
      "list_all (\<lambda>d. py_ge (rating_of d) m = Inr True \<or> py_ge (rating_of d) m = Inr False) ds"
      by blast
    with d ok True show ?thesis
      by (intro exI [of _ "d # ds"]) simp
  next
    case False
    with Cons.prems d ok have "collect w m acc rest = Inr ps"
      by (simp add: place_step_def)
    from Cons.IH [OF this] obtain ds where
      "rest = map JDict ds"
      "ps = acc @ map (place_info w) (filter (\<lambda>d. py_ge (rating_of d) m = Inr True) ds)"
      "list_all (\<lambda>d. py_ge (rating_of d) m = Inr True \<or> py_ge (rating_of d) m = Inr False) ds"
      by blast
    with d ok False show ?thesis
      by (intro exI [of _ "d # ds"]) simp
  qed
qed


lemma place_info_rating:
  "place_info w d = place_info w d' \<Longrightarrow> rating_of d = rating_of d'"
  by (simp add: place_info_def Let_def)

lemma py_ge_numbers:
  "as_number a = Some x \<Longrightarrow> as_number b = Some y \<Longrightarrow> py_ge a b = Inr (num_ge x y)"
  by (cases a; cases b) auto

lemma place_info_fields:
  "field (place_info w d) (ascii ''name'') =
     Some (case map_of d (ascii ''displayName'') of
             None \<Rightarrow> JStr UNKNOWN_NAME
           | Some (JDict dn) \<Rightarrow>
               (case map_of dn (ascii ''text'') of None \<Rightarrow> JStr UNKNOWN_NAME | Some t \<Rightarrow> t)
           | Some v \<Rightarrow> JStr (py_str w v))"
  "field (place_info w d) (ascii ''rating'') = Some (rating_of d)"
  "field (place_info w d) (ascii ''user_ratings_total'') =
     Some (case map_of d (ascii ''userRatingCount'') of None \<Rightarrow> JInt 0 | Some n \<Rightarrow> n)"
  "field (place_info w d) (ascii ''address'') =
     Some (case map_of d (ascii ''formattedAddress'') of
             None \<Rightarrow> JStr UNKNOWN_ADDRESS | Some a \<Rightarrow> a)"
  "field (place_info w d) (ascii ''place_id'') =
     Some (case map_of d (ascii ''id'') of None \<Rightarrow> JStr [] | Some i \<Rightarrow> i)"
  "field (place_info w d) (ascii ''types'') =
     Some (case map_of d (ascii ''types'') of None \<Rightarrow> JList [] | Some ts \<Rightarrow> ts)"
  "field (place_info w d) (ascii ''geometry'') =
     Some (case map_of d (ascii ''location'') of
             None \<Rightarrow> JDict []
           | Some loc \<Rightarrow> if truthy loc then JDict [(ascii ''location'', loc)] else JDict [])"
  by (simp_all add: place_info_def field_def dict_get_def Let_def ascii_def
      split: option.splits json.splits)

subsection \<open>What a success outcome came from\<close>

lemma search_with_key_success:
  assumes "search_with_key w key arguments = (calls, Returns [TextContent (Dumps doc ind)])"
      and "\<not> is_error doc"
  shows "\<exists>sq body raw ps.
           truthy (arg_query arguments) \<and>
           bias_query w (arg_query arguments) = Inr sq \<and>
           calls = [places_request key sq] \<and>
           post w (places_request key sq) = Inr body \<and>
           response_places body = Inr raw \<and>
           collect w (arg_min_rating arguments) [] raw = Inr ps \<and>
           doc = success_document (arg_query arguments) (arg_min_rating arguments) ps \<and>
           ind = Some 2"
proof -
  have err: "\<And>e. on_exception w e \<noteq> [TextContent (Dumps doc ind)]"
  proof
    fix e assume a: "on_exception w e = [TextContent (Dumps doc ind)]"
    obtain msg where "on_exception w e = error_result msg"
      using on_exception_error by blast
    with a have "doc = JDict [(ascii ''error'', JStr msg)]"
      by (simp add: error_result_def)
    with assms(2) show False by simp
  qed
  from assms(1) err show ?thesis
    by (auto simp: search_with_key_def search_def Let_def
        split: if_splits sum.splits prod.splits)
qed

lemma handle_success:
  assumes "handle_search_places w s arguments =
             (s', calls, Returns [TextContent (Dumps doc ind)])"
      and "\<not> is_error doc"
  shows "\<exists>key. available_key w s = Some key \<and>
           search_with_key w key arguments = (calls, Returns [TextContent (Dumps doc ind)])"
proof (cases "available_key w s")
  case None
  from assms(1) handle_without_key [OF None, of arguments]
  have "doc = JDict [(ascii ''error'', JStr MSG_NO_KEY)]"
    by (simp add: error_result_def)
  with assms(2) show ?thesis by simp
next
  case (Some key)
  with assms(1) handle_with_key [OF Some, of arguments] show ?thesis by simp
qed

subsection \<open>Requests made and content returned\<close>

lemma search_calls:
  "bias_query w query = Inr sq \<Longrightarrow>
   fst (search w key query min_rating) = [places_request key sq]"
  by (simp add: search_def Let_def)

lemma search_with_key_calls:
  "truthy (arg_query arguments) \<Longrightarrow>
   fst (search_with_key w key arguments) =
     fst (search w key (arg_query arguments) (arg_min_rating arguments))"
  by (simp add: search_with_key_def split: prod.splits sum.splits)





subsection \<open>Decimal rendering of a status code\<close>


subsection \<open>The examples, evaluated\<close>

lemmas eval_defs = ascii_def dict_get_def arg_query_def arg_min_rating_def rating_of_def
  example_world_def example_arguments_def place_above_def place_below_def
  place_on_boundary_def example_response_def handle_search_places_def search_with_key_def
  search_def bias_query_def response_places_def place_step_def LOCALITY_def
  LOCALITY_ROMAN_def sublist_code prefix_code Let_def example_state_def serving_world_def
  example_document_def forbidden_world_def offline_world_def

lemma example_search:
  "handle_search_places serving_world example_state example_arguments =
   (example_state, [places_request (ascii ''k'') (JStr (LOCALITY @ ascii '' ramen''))],
    Returns [TextContent (Dumps example_document (Some 2))])"
  by (simp add: eval_defs)

lemma example_not_error: "\<not> is_error example_document"
  by (simp add: example_document_def)

lemma boundary_place_info:
  "place_info serving_world place_on_boundary =
     JDict [(ascii ''name'', JStr UNKNOWN_NAME),
            (ascii ''rating'', JInt 4),
            (ascii ''user_ratings_total'', JInt 0),
            (ascii ''address'', JStr UNKNOWN_ADDRESS),
            (ascii ''place_id'', JStr []),
            (ascii ''types'', JList []),
            (ascii ''geometry'', JDict [])]"
  by (simp add: place_info_def place_on_boundary_def rating_of_def dict_get_def ascii_def
      Let_def)

lemma example_outcome_no_error: "map_of example_outcome (ascii ''error'') = None"
  by (simp add: example_outcome_def ascii_def)

section \<open>The rating filter\<close>

text \<open>
  C1. Take a success outcome (a returned document without the key \<^verbatim>\<open>error\<close>), the
  request that was made, and the list under \<^verbatim>\<open>places\<close> in the body the API answered.
  With the threshold the \<^verbatim>\<open>min_rating\<close> entry of the arguments (4.0 when absent) and a
  place's rating its \<^verbatim>\<open>rating\<close> entry (0 when absent): every element of the list is a
  dict, the outcome's places are the records of exactly those whose rating is greater
  than or equal to the threshold, in the order of the response, and for finite numbers
  that is \<open>m \<le> r\<close>: a rating equal to the threshold is included, any rating below it is
  excluded.
\<close>

theorem rating_filter_inclusive:
  assumes "handle_search_places w s arguments =
             (s', calls, Returns [TextContent (Dumps (JDict out) ind)])"
      and "map_of out (ascii ''error'') = None"
      and "req \<in> set calls"
      and "post w req = Inr (JDict b)"
      and "map_of b (ascii ''places'') = Some (JList raw)"
      and "threshold = (case map_of arguments (ascii ''min_rating'') of
                          None \<Rightarrow> JFloat (Finite 4) | Some m \<Rightarrow> m)"
  shows "calls = [req] \<and>
         (\<exists>ds ps.
            raw = map JDict ds \<and>
            map_of out (ascii ''places'') = Some (JList ps) \<and>
            ps = map (place_info w)
                   (filter (\<lambda>d. py_ge (case map_of d (ascii ''rating'') of
                                          None \<Rightarrow> JInt 0 | Some r \<Rightarrow> r) threshold = Inr True)
                      ds) \<and>
            (\<forall>d \<in> set ds.
               (place_info w d \<in> set ps) =
               (py_ge (case map_of d (ascii ''rating'') of None \<Rightarrow> JInt 0 | Some r \<Rightarrow> r)
                  threshold = Inr True)) \<and>
            (\<forall>d \<in> set ds. \<forall>r m.
               (map_of d (ascii ''rating'') = Some (JFloat (Finite r)) \<or>
                (\<exists>i. map_of d (ascii ''rating'') = Some (JInt i) \<and> r = of_int i) \<or>
                map_of d (ascii ''rating'') = None \<and> r = 0) \<and>
               (threshold = JFloat (Finite m) \<or> (\<exists>j. threshold = JInt j \<and> m = of_int j)) \<longrightarrow>
               (place_info w d \<in> set ps) = (m \<le> r)))"
proof -
  let ?m = "arg_min_rating arguments"
  have thr: "?m = threshold"
    using assms(6) by (simp add: arg_min_rating_def dict_get_def split: option.splits)
  have rat: "rating_of d = (case map_of d (ascii ''rating'') of None \<Rightarrow> JInt 0 | Some r \<Rightarrow> r)"
    for d
    by (simp add: rating_of_def dict_get_def split: option.splits)
  have ne: "\<not> is_error (JDict out)"
    using assms(2) by (simp add: is_error_dict)
  from handle_success [OF assms(1) ne] obtain key where
    "search_with_key w key arguments = (calls, Returns [TextContent (Dumps (JDict out) ind)])"
    by blast
  from search_with_key_success [OF this ne] obtain sq body raw0 ps where
    calls: "calls = [places_request key sq]" and
    post: "post w (places_request key sq) = Inr body" and
    raw0: "response_places body = Inr raw0" and
    coll: "collect w ?m [] raw0 = Inr ps" and
    doc: "JDict out = success_document (arg_query arguments) ?m ps"
    by blast
  from calls assms(3) have req: "req = places_request key sq" by simp
  with post assms(4) have "body = JDict b" by simp
  with raw0 assms(5) have raw: "raw0 = raw"
    by (simp add: response_places_def)
  from collect_acc [OF coll] obtain ds where
    ds: "raw0 = map JDict ds" and
    ps: "ps = map (place_info w) (filter (\<lambda>d. py_ge (rating_of d) ?m = Inr True) ds)"
    by auto
  have incl: "(place_info w d \<in> set ps) = (py_ge (rating_of d) ?m = Inr True)"
    if "d \<in> set ds" for d
  proof
    assume "place_info w d \<in> set ps"
    with ps obtain d' where "py_ge (rating_of d') ?m = Inr True"
      "place_info w d' = place_info w d"
      by auto
    then show "py_ge (rating_of d) ?m = Inr True"
      using place_info_rating [of w d' d] by simp
  next
    assume "py_ge (rating_of d) ?m = Inr True"
    with that ps show "place_info w d \<in> set ps" by auto
  qed
  have num: "(place_info w d \<in> set ps) = (m \<le> r)"
    if "d \<in> set ds"
       "map_of d (ascii ''rating'') = Some (JFloat (Finite r)) \<or>
        (\<exists>i. map_of d (ascii ''rating'') = Some (JInt i) \<and> r = of_int i) \<or>
        map_of d (ascii ''rating'') = None \<and> r = 0"
       "threshold = JFloat (Finite m) \<or> (\<exists>j. threshold = JInt j \<and> m = of_int j)" for d r m
  proof -
    from that(2) have "as_number (rating_of d) = Some (Finite r)"
      by (auto simp: rat)
    moreover from that(3) have "as_number ?m = Some (Finite m)"
      by (auto simp: thr)
    ultimately show ?thesis
      using incl [OF that(1)] py_ge_numbers by simp
  qed
  have places: "map_of out (ascii ''places'') = Some (JList ps)"
    using doc by (simp add: success_document_def ascii_def)
  from ds ps incl num places raw
  have "\<exists>ds ps.
            raw = map JDict ds \<and>
            map_of out (ascii ''places'') = Some (JList ps) \<and>
            ps = map (place_info w) (filter (\<lambda>d. py_ge (rating_of d) ?m = Inr True) ds) \<and>
            (\<forall>d \<in> set ds.
               (place_info w d \<in> set ps) = (py_ge (rating_of d) ?m = Inr True)) \<and>
            (\<forall>d \<in> set ds. \<forall>r m.
               (map_of d (ascii ''rating'') = Some (JFloat (Finite r)) \<or>
                (\<exists>i. map_of d (ascii ''rating'') = Some (JInt i) \<and> r = of_int i) \<or>
                map_of d (ascii ''rating'') = None \<and> r = 0) \<and>
               (threshold = JFloat (Finite m) \<or> (\<exists>j. threshold = JInt j \<and> m = of_int j)) \<longrightarrow>
               (place_info w d \<in> set ps) = (m \<le> r))"
    by (intro exI [of _ ds] exI [of _ ps]) blast
  with calls req show ?thesis
    unfolding rat thr by simp
qed

theorem rating_filter_inclusive_witness:
  "handle_search_places serving_world example_state example_arguments =
     (example_state, [example_request],
      Returns [TextContent (Dumps (JDict example_outcome) (Some 2))]) \<and>
   map_of example_outcome (ascii ''error'') = None \<and>
   example_request \<in> set [example_request] \<and>
   post serving_world example_request =
     Inr (JDict [(ascii ''places'',
                  JList [JDict place_above, JDict place_below, JDict place_on_boundary])]) \<and>
   map_of [(ascii ''places'',
            JList [JDict place_above, JDict place_below, JDict place_on_boundary])]
     (ascii ''places'') =
     Some (JList [JDict place_above, JDict place_below, JDict place_on_boundary]) \<and>
   JFloat (Finite 4) = (case map_of example_arguments (ascii ''min_rating'') of
                          None \<Rightarrow> JFloat (Finite 4) | Some m \<Rightarrow> m) \<and>
   (\<exists>ds ps.
      [JDict place_above, JDict place_below, JDict place_on_boundary] = map JDict ds \<and>
      map_of example_outcome (ascii ''places'') = Some (JList ps) \<and>
      ps = map (place_info serving_world)
             (filter (\<lambda>d. py_ge (case map_of d (ascii ''rating'') of
                                    None \<Rightarrow> JInt 0 | Some r \<Rightarrow> r) (JFloat (Finite 4)) = Inr True)
                ds)) \<and>
   map_of example_outcome (ascii ''count'') = Some (JInt 2)"
proof -
  have run: "handle_search_places serving_world example_state example_arguments =
     (example_state, [example_request],
      Returns [TextContent (Dumps (JDict example_outcome) (Some 2))])"
    by (simp add: eval_defs example_request_def example_outcome_def places_request_def
        success_document_def place_info_def UNKNOWN_NAME_def UNKNOWN_ADDRESS_def)
  have post: "post serving_world example_request =
     Inr (JDict [(ascii ''places'',
                  JList [JDict place_above, JDict place_below, JDict place_on_boundary])])"
    by (simp add: serving_world_def example_world_def example_response_def)
  have raw: "map_of [(ascii ''places'',
            JList [JDict place_above, JDict place_below, JDict place_on_boundary])]
     (ascii ''places'') =
     Some (JList [JDict place_above, JDict place_below, JDict place_on_boundary])"
    by simp
  have m: "JFloat (Finite 4) = (case map_of example_arguments (ascii ''min_rating'') of
                          None \<Rightarrow> JFloat (Finite 4) | Some m \<Rightarrow> m)"
    by (simp add: example_arguments_def ascii_def)
  have r: "example_request \<in> set [example_request]"
    by simp
  have c: "map_of example_outcome (ascii ''count'') = Some (JInt 2)"
    by (simp add: example_outcome_def ascii_def)
  have e: "\<exists>ds ps.
      [JDict place_above, JDict place_below, JDict place_on_boundary] = map JDict ds \<and>
      map_of example_outcome (ascii ''places'') = Some (JList ps) \<and>
      ps = map (place_info serving_world)
             (filter (\<lambda>d. py_ge (case map_of d (ascii ''rating'') of
                                    None \<Rightarrow> JInt 0 | Some r \<Rightarrow> r) (JFloat (Finite 4)) = Inr True)
                ds)"
    using rating_filter_inclusive
      [OF run example_outcome_no_error r post raw m, THEN conjunct2]
    by (elim exE conjE) (intro exI conjI; assumption)
  show ?thesis
    by (intro conjI) (fact run example_outcome_no_error r post raw m c e)+
qed

section \<open>Failures of the Places API\<close>



section \<open>An empty or absent query\<close>




section \<open>Reshaping a place\<close>

text \<open>
  C4. In a success outcome each record is \<open>place_info\<close> of an included raw place: the
  name is the text of \<^verbatim>\<open>displayName\<close> and the sentinel \<open>UNKNOWN_NAME\<close> when the display
  name or its text is absent, the rating count is 0 when absent, the address is the
  sentinel \<open>UNKNOWN_ADDRESS\<close> when absent, the types are the empty list when absent, and
  when the place has no \<^verbatim>\<open>location\<close> the geometry is the empty object: no coordinates
  entry, and no default in its place.
\<close>

theorem place_record_reshaping:
  assumes "handle_search_places w s arguments =
             (s', calls, Returns [TextContent (Dumps doc ind)])"
      and "\<not> is_error doc"
  shows "\<exists>key sq body ds.
           calls = [places_request key sq] \<and>
           post w (places_request key sq) = Inr body \<and>
           response_places body = Inr (map JDict ds) \<and>
           field doc (ascii ''places'') =
             Some (JList (map (place_info w)
               (filter (\<lambda>d. py_ge (rating_of d) (arg_min_rating arguments) = Inr True) ds))) \<and>
           (\<forall>d \<in> set ds.
              field (place_info w d) (ascii ''name'') =
                Some (case map_of d (ascii ''displayName'') of
                        None \<Rightarrow> JStr UNKNOWN_NAME
                      | Some (JDict dn) \<Rightarrow>
                          (case map_of dn (ascii ''text'') of
                             None \<Rightarrow> JStr UNKNOWN_NAME | Some t \<Rightarrow> t)
                      | Some v \<Rightarrow> JStr (py_str w v)) \<and>
              field (place_info w d) (ascii ''rating'') = Some (rating_of d) \<and>
              field (place_info w d) (ascii ''user_ratings_total'') =
                Some (case map_of d (ascii ''userRatingCount'') of
                        None \<Rightarrow> JInt 0 | Some n \<Rightarrow> n) \<and>
              field (place_info w d) (ascii ''address'') =
                Some (case map_of d (ascii ''formattedAddress'') of
                        None \<Rightarrow> JStr UNKNOWN_ADDRESS | Some a \<Rightarrow> a) \<and>
              field (place_info w d) (ascii ''place_id'') =
                Some (case map_of d (ascii ''id'') of None \<Rightarrow> JStr [] | Some i \<Rightarrow> i) \<and>
              field (place_info w d) (ascii ''types'') =
                Some (case map_of d (ascii ''types'') of None \<Rightarrow> JList [] | Some ts \<Rightarrow> ts) \<and>
              field (place_info w d) (ascii ''geometry'') =
                Some (case map_of d (ascii ''location'') of
                        None \<Rightarrow> JDict []
                      | Some loc \<Rightarrow>
                          if truthy loc then JDict [(ascii ''location'', loc)] else JDict []))"
proof -
  from handle_success [OF assms] obtain key where
    "search_with_key w key arguments = (calls, Returns [TextContent (Dumps doc ind)])"
    by blast
  from search_with_key_success [OF this assms(2)] obtain sq body raw ps where
    calls: "calls = [places_request key sq]" and
    post: "post w (places_request key sq) = Inr body" and
    raw: "response_places body = Inr raw" and
    coll: "collect w (arg_min_rating arguments) [] raw = Inr ps" and
    doc: "doc = success_document (arg_query arguments) (arg_min_rating arguments) ps"
    by blast
  from collect_acc [OF coll] obtain ds where
    ds: "raw = map JDict ds" and
    ps: "ps = map (place_info w)
           (filter (\<lambda>d. py_ge (rating_of d) (arg_min_rating arguments) = Inr True) ds)"
    by auto
  have "field doc (ascii ''places'') = Some (JList ps)"
    by (simp add: doc success_fields)
  with calls post raw ds ps show ?thesis
    by (intro exI [of _ key] exI [of _ sq] exI [of _ body] exI [of _ ds])
       (simp add: place_info_fields)
qed

theorem place_record_reshaping_witness:
  "handle_search_places serving_world example_state example_arguments =
     (example_state, [places_request (ascii ''k'') (JStr (LOCALITY @ ascii '' ramen''))],
      Returns [TextContent (Dumps example_document (Some 2))]) \<and>
   \<not> is_error example_document \<and>
   (\<exists>key sq body ds.
      [places_request (ascii ''k'') (JStr (LOCALITY @ ascii '' ramen''))] =
        [places_request key sq] \<and>
      post serving_world (places_request key sq) = Inr body \<and>
      response_places body = Inr (map JDict ds) \<and>
      field example_document (ascii ''places'') =
        Some (JList (map (place_info serving_world)
          (filter (\<lambda>d. py_ge (rating_of d) (arg_min_rating example_arguments) = Inr True) ds)))) \<and>
   place_info serving_world place_on_boundary =
     JDict [(ascii ''name'', JStr UNKNOWN_NAME),
            (ascii ''rating'', JInt 4),
            (ascii ''user_ratings_total'', JInt 0),
            (ascii ''address'', JStr UNKNOWN_ADDRESS),
            (ascii ''place_id'', JStr []),
            (ascii ''types'', JList []),
            (ascii ''geometry'', JDict [])]"
  using place_record_reshaping [OF example_search example_not_error]
    example_search example_not_error boundary_place_info
  by blast

section \<open>The locality bias\<close>

text \<open>
  C5. For a string query the query sent to the Places API is a function of that string
  alone: the query itself when it contains the city's name in Japanese or the spelling
  \<^verbatim>\<open>Chigasaki\<close>, and otherwise the Japanese name, a space, and the query. It is the
  \<^verbatim>\<open>textQuery\<close> of the one request made.
\<close>

theorem locality_bias:
  "bias_query w (JStr q) =
     Inr (JStr (if sublist LOCALITY q \<or> sublist LOCALITY_ROMAN q then q
                else LOCALITY @ ascii '' '' @ q)) \<and>
   (arg_query arguments = JStr q \<and> q \<noteq> [] \<and> available_key w s = Some key \<longrightarrow>
      fst (snd (handle_search_places w s arguments)) =
        [places_request key
           (JStr (if sublist LOCALITY q \<or> sublist LOCALITY_ROMAN q then q
                  else LOCALITY @ ascii '' '' @ q))]) \<and>
   field (payload (places_request key sq)) (ascii ''textQuery'') = Some sq"
proof (intro conjI impI)
  show b: "bias_query w (JStr q) =
     Inr (JStr (if sublist LOCALITY q \<or> sublist LOCALITY_ROMAN q then q
                else LOCALITY @ ascii '' '' @ q))"
    by (cases "sublist LOCALITY q"; cases "sublist LOCALITY_ROMAN q")
       (simp_all add: bias_query_def)
  show "field (payload (places_request key sq)) (ascii ''textQuery'') = Some sq"
    by (simp add: places_request_def field_def)
  assume "arg_query arguments = JStr q \<and> q \<noteq> [] \<and> available_key w s = Some key"
  then show "fst (snd (handle_search_places w s arguments)) =
        [places_request key
           (JStr (if sublist LOCALITY q \<or> sublist LOCALITY_ROMAN q then q
                  else LOCALITY @ ascii '' '' @ q))]"
    using b by (simp add: handle_with_key search_with_key_calls search_calls)
qed

theorem locality_bias_witness:
  "arg_query example_arguments = JStr (ascii ''ramen'') \<and>
   ascii ''ramen'' \<noteq> [] \<and>
   available_key serving_world example_state = Some (ascii ''k'') \<and>
   fst (snd (handle_search_places serving_world example_state example_arguments)) =
     [places_request (ascii ''k'') (JStr (LOCALITY @ ascii '' ramen''))] \<and>
   bias_query serving_world (JStr (ascii ''Chigasaki ramen'')) =
     Inr (JStr (ascii ''Chigasaki ramen'')) \<and>
   bias_query serving_world (JStr (LOCALITY @ ascii ''ramen'')) =
     Inr (JStr (LOCALITY @ ascii ''ramen''))"
proof -
  have a: "arg_query example_arguments = JStr (ascii ''ramen'')"
    by (simp add: arg_query_def example_arguments_def dict_get_def ascii_def)
  have n: "ascii ''ramen'' \<noteq> []"
    by (simp add: ascii_def)
  have k: "available_key serving_world example_state = Some (ascii ''k'')"
    by (simp add: available_key_def example_state_def)
  have r: "\<not> (sublist LOCALITY (ascii ''ramen'') \<or> sublist LOCALITY_ROMAN (ascii ''ramen''))"
    by (simp add: LOCALITY_def LOCALITY_ROMAN_def ascii_def sublist_code prefix_code)
  have c: "sublist LOCALITY_ROMAN (ascii ''Chigasaki ramen'')"
    by (simp add: LOCALITY_ROMAN_def ascii_def sublist_code prefix_code)
  have j: "sublist LOCALITY (LOCALITY @ ascii ''ramen'')"
    by simp
  from locality_bias [of serving_world "ascii ''ramen''" example_arguments example_state
      "ascii ''k''"]
    locality_bias [of serving_world "ascii ''Chigasaki ramen''"]
    locality_bias [of serving_world "LOCALITY @ ascii ''ramen''"]
    a n k r c j
  show ?thesis
    by (simp add: ascii_def)
qed

section \<open>A missing credential\<close>

text \<open>
  C6. Starting the server never reads the key, and the tool list does not depend on it.
  With the key absent from the environment, the first \<^verbatim>\<open>search_places\<close> invocation makes
  no request and returns one text content item, the document with the single key
  \<^verbatim>\<open>error\<close> whose message names \<^verbatim>\<open>MAPS_API_KEY\<close>; with a key in the environment, it is
  the first invocation that stores it.
\<close>

theorem lazy_credential:
  assumes "getenv w (ascii ''MAPS_API_KEY'') = None"
  shows "MAPS_API_KEY (startup w) = None \<and>
         map name list_tools = [ascii ''search_places''] \<and>
         call_tool w (startup w) (ascii ''search_places'') arguments =
           (\<lparr>MAPS_API_KEY = None\<rparr>, [],
            Returns [TextContent (Dumps (JDict [(ascii ''error'', JStr MSG_NO_KEY)]) None)]) \<and>
         sublist (ascii ''MAPS_API_KEY'') MSG_NO_KEY \<and>
         (\<forall>w' key. getenv w' (ascii ''MAPS_API_KEY'') = Some key \<and> key \<noteq> [] \<longrightarrow>
            MAPS_API_KEY (startup w') = None \<and>
            MAPS_API_KEY (fst (call_tool w' (startup w') (ascii ''search_places'') arguments)) =
              Some key)"
proof (intro conjI allI impI)
  show "call_tool w (startup w) (ascii ''search_places'') arguments =
           (\<lparr>MAPS_API_KEY = None\<rparr>, [],
            Returns [TextContent (Dumps (JDict [(ascii ''error'', JStr MSG_NO_KEY)]) None)])"
    using assms
    by (simp add: call_tool_def handle_search_places_def startup_def error_result_def)
  show "sublist (ascii ''MAPS_API_KEY'') MSG_NO_KEY"
    unfolding MSG_NO_KEY_def by (rule sublist_append_rightI)
  fix w' :: world and key
  assume "getenv w' (ascii ''MAPS_API_KEY'') = Some key \<and> key \<noteq> []"
  then show "MAPS_API_KEY (fst (call_tool w' (startup w') (ascii ''search_places'') arguments)) =
              Some key"
    by (simp add: call_tool_def handle_search_places_def startup_def)
qed (simp_all add: startup_def list_tools_def)

theorem lazy_credential_witness:
  "getenv serving_world (ascii ''MAPS_API_KEY'') = None \<and>
   MAPS_API_KEY (startup serving_world) = None \<and>
   map name list_tools = [ascii ''search_places''] \<and>
   call_tool serving_world (startup serving_world) (ascii ''search_places'') example_arguments =
     (\<lparr>MAPS_API_KEY = None\<rparr>, [],
      Returns [TextContent (Dumps (JDict [(ascii ''error'', JStr MSG_NO_KEY)]) None)]) \<and>
   sublist (ascii ''MAPS_API_KEY'') MSG_NO_KEY"
proof -
  have g: "getenv serving_world (ascii ''MAPS_API_KEY'') = None"
    by (simp add: serving_world_def example_world_def)
  from lazy_credential [OF g, of example_arguments] g show ?thesis
    by (elim conjE) (intro conjI; assumption)
qed

section \<open>Dispatch by tool name\<close>

text \<open>
  C7. Dispatching any tool name other than \<^verbatim>\<open>search_places\<close> fails with the unknown-tool
  \<^verbatim>\<open>ValueError\<close> (the state untouched, no request made); dispatching \<^verbatim>\<open>search_places\<close>
  is the search handler on the given arguments.
\<close>

theorem call_tool_dispatch:
  "(tool_name \<noteq> ascii ''search_places'' \<longrightarrow>
      call_tool w s tool_name arguments =
        (s, [], Raises (ValueError (MSG_UNKNOWN_TOOL @ tool_name)))) \<and>
   call_tool w s (ascii ''search_places'') arguments = handle_search_places w s arguments"
  by (simp add: call_tool_def)

theorem call_tool_dispatch_witness:
  "ascii ''search_place'' \<noteq> ascii ''search_places'' \<and>
   call_tool (example_world None (Inr JNull)) \<lparr>MAPS_API_KEY = None\<rparr> (ascii ''search_place'') [] =
     (\<lparr>MAPS_API_KEY = None\<rparr>, [], Raises (ValueError (MSG_UNKNOWN_TOOL @ ascii ''search_place'')))"
  using call_tool_dispatch [of "ascii ''search_place''" "example_world None (Inr JNull)"
      "\<lparr>MAPS_API_KEY = None\<rparr>" "[]"]
  by (simp add: ascii_def)

section \<open>The fields of a success outcome\<close>

text \<open>
  C8. In every success outcome (a returned document without the key \<^verbatim>\<open>error\<close>) the
  \<^verbatim>\<open>count\<close> entry is the length of the list under \<^verbatim>\<open>places\<close>, the \<^verbatim>\<open>query\<close> entry is
  the \<^verbatim>\<open>query\<close> entry of the arguments as given (not the biased one), and the
  \<^verbatim>\<open>min_rating\<close> entry is that of the arguments, or 4.0 when they have none.
\<close>

theorem success_outcome_fields:
  assumes "handle_search_places w s arguments =
             (s', calls, Returns [TextContent (Dumps (JDict out) ind)])"
      and "map_of out (ascii ''error'') = None"
  shows "\<exists>query ps.
           map_of arguments (ascii ''query'') = Some query \<and>
           map_of out (ascii ''query'') = Some query \<and>
           map_of out (ascii ''min_rating'') =
             Some (case map_of arguments (ascii ''min_rating'') of
                     None \<Rightarrow> JFloat (Finite 4) | Some m \<Rightarrow> m) \<and>
           map_of out (ascii ''places'') = Some (JList ps) \<and>
           map_of out (ascii ''count'') = Some (JInt (int (length ps)))"
proof -
  have ne: "\<not> is_error (JDict out)"
    using assms(2) by (simp add: is_error_dict)
  from handle_success [OF assms(1) ne] obtain key where
    "search_with_key w key arguments = (calls, Returns [TextContent (Dumps (JDict out) ind)])"
    by blast
  from search_with_key_success [OF this ne] obtain ps where
    t: "truthy (arg_query arguments)" and
    doc: "JDict out = success_document (arg_query arguments) (arg_min_rating arguments) ps"
    by blast
  from t obtain query where q: "map_of arguments (ascii ''query'') = Some query"
    by (cases "map_of arguments (ascii ''query'')") (simp_all add: arg_query_def dict_get_def)
  from doc have out: "out = [(ascii ''query'', arg_query arguments),
            (ascii ''min_rating'', arg_min_rating arguments),
            (ascii ''count'', JInt (int (length ps))),
            (ascii ''places'', JList ps)]"
    by (simp add: success_document_def)
  have aq: "arg_query arguments = query"
    using q by (simp add: arg_query_def dict_get_def)
  have am: "arg_min_rating arguments =
      (case map_of arguments (ascii ''min_rating'') of None \<Rightarrow> JFloat (Finite 4) | Some m \<Rightarrow> m)"
    by (simp add: arg_min_rating_def dict_get_def split: option.splits)
  have "map_of out (ascii ''query'') = Some query"
       "map_of out (ascii ''min_rating'') =
          Some (case map_of arguments (ascii ''min_rating'') of
                  None \<Rightarrow> JFloat (Finite 4) | Some m \<Rightarrow> m)"
       "map_of out (ascii ''places'') = Some (JList ps)"
       "map_of out (ascii ''count'') = Some (JInt (int (length ps)))"
    unfolding out aq am [symmetric] by (simp_all add: ascii_def)
  with q show ?thesis
    by (intro exI [of _ query] exI [of _ ps]) simp
qed

theorem success_outcome_fields_witness:
  "handle_search_places serving_world example_state example_arguments =
     (example_state, [example_request],
      Returns [TextContent (Dumps (JDict example_outcome) (Some 2))]) \<and>
   map_of example_outcome (ascii ''error'') = None \<and>
   (\<exists>query ps.
      map_of example_arguments (ascii ''query'') = Some query \<and>
      map_of example_outcome (ascii ''query'') = Some query \<and>
      map_of example_outcome (ascii ''min_rating'') =
        Some (case map_of example_arguments (ascii ''min_rating'') of
                None \<Rightarrow> JFloat (Finite 4) | Some m \<Rightarrow> m) \<and>
      map_of example_outcome (ascii ''places'') = Some (JList ps) \<and>
      map_of example_outcome (ascii ''count'') = Some (JInt (int (length ps)))) \<and>
   map_of example_outcome (ascii ''count'') = Some (JInt 2) \<and>
   map_of example_outcome (ascii ''query'') = Some (JStr (ascii ''ramen'')) \<and>
   map_of example_outcome (ascii ''min_rating'') = Some (JFloat (Finite 4))"
proof -
  have run: "handle_search_places serving_world example_state example_arguments =
     (example_state, [example_request],
      Returns [TextContent (Dumps (JDict example_outcome) (Some 2))])"
    by (simp add: eval_defs example_request_def example_outcome_def places_request_def
        success_document_def place_info_def UNKNOWN_NAME_def UNKNOWN_ADDRESS_def)
  have c: "map_of example_outcome (ascii ''count'') = Some (JInt 2)"
    by (simp add: example_outcome_def ascii_def)
  have q: "map_of example_outcome (ascii ''query'') = Some (JStr (ascii ''ramen''))"
    by (simp add: example_outcome_def ascii_def)
  have m: "map_of example_outcome (ascii ''min_rating'') = Some (JFloat (Finite 4))"
    by (simp add: example_outcome_def ascii_def)
  show ?thesis
    by (intro conjI)
       (fact run example_outcome_no_error c q m
          success_outcome_fields [OF run example_outcome_no_error])+
qed

section \<open>Arguments other than the query and the minimum rating\<close>

text \<open>
  C9. Two argument dicts with the same \<^verbatim>\<open>query\<close> entry and the same \<^verbatim>\<open>min_rating\<close>
  entry (whatever other keys they hold, the client's \<^verbatim>\<open>location\<close> in particular) give
  the same new state, the same requests and the same outcome, in the same world and
  state.
\<close>

theorem other_arguments_ignored:
  assumes "map_of a1 (ascii ''query'') = map_of a2 (ascii ''query'')"
      and "map_of a1 (ascii ''min_rating'') = map_of a2 (ascii ''min_rating'')"
  shows "handle_search_places w s a1 = handle_search_places w s a2"
proof -
  have "search_with_key w key a1 = search_with_key w key a2" for key
    using assms
    by (simp add: search_with_key_def arg_query_def arg_min_rating_def dict_get_def)
  then show ?thesis
    by (simp add: handle_search_places_def Let_def split: option.splits)
qed

theorem other_arguments_ignored_witness:
  "map_of example_arguments (ascii ''query'') =
     map_of [(ascii ''min_rating'', JFloat (Finite 4)),
             (ascii ''query'', JStr (ascii ''ramen'')),
             (ascii ''location'', JStr (ascii ''Shinjuku'')),
             (ascii ''radius'', JInt 500)] (ascii ''query'') \<and>
   map_of example_arguments (ascii ''min_rating'') =
     map_of [(ascii ''min_rating'', JFloat (Finite 4)),
             (ascii ''query'', JStr (ascii ''ramen'')),
             (ascii ''location'', JStr (ascii ''Shinjuku'')),
             (ascii ''radius'', JInt 500)] (ascii ''min_rating'') \<and>
   map_of example_arguments (ascii ''location'') = Some (JStr (ascii ''Fujisawa'')) \<and>
   handle_search_places serving_world example_state
     [(ascii ''min_rating'', JFloat (Finite 4)),
      (ascii ''query'', JStr (ascii ''ramen'')),
      (ascii ''location'', JStr (ascii ''Shinjuku'')),
      (ascii ''radius'', JInt 500)] =
     handle_search_places serving_world example_state example_arguments \<and>
   handle_search_places serving_world example_state
     [(ascii ''min_rating'', JFloat (Finite 4)),
      (ascii ''query'', JStr (ascii ''ramen'')),
      (ascii ''location'', JStr (ascii ''Shinjuku'')),
      (ascii ''radius'', JInt 500)] =
     (example_state, [example_request],
      Returns [TextContent (Dumps (JDict example_outcome) (Some 2))])"
proof -
  have run: "handle_search_places serving_world example_state example_arguments =
     (example_state, [example_request],
      Returns [TextContent (Dumps (JDict example_outcome) (Some 2))])"
    by (simp add: eval_defs example_request_def example_outcome_def places_request_def
        success_document_def place_info_def UNKNOWN_NAME_def UNKNOWN_ADDRESS_def)
  let ?a = "[(ascii ''min_rating'', JFloat (Finite 4)),
             (ascii ''query'', JStr (ascii ''ramen'')),
             (ascii ''location'', JStr (ascii ''Shinjuku'')),
             (ascii ''radius'', JInt 500)]"
  have q: "map_of example_arguments (ascii ''query'') = map_of ?a (ascii ''query'')"
    by (simp add: example_arguments_def ascii_def)
  have m: "map_of example_arguments (ascii ''min_rating'') = map_of ?a (ascii ''min_rating'')"
    by (simp add: example_arguments_def ascii_def)
  have l: "map_of example_arguments (ascii ''location'') = Some (JStr (ascii ''Fujisawa''))"
    by (simp add: example_arguments_def ascii_def)
  have e: "handle_search_places serving_world example_state ?a =
      handle_search_places serving_world example_state example_arguments"
    using other_arguments_ignored [OF q m, of serving_world example_state] by simp
  have f: "handle_search_places serving_world example_state ?a =
     (example_state, [example_request],
      Returns [TextContent (Dumps (JDict example_outcome) (Some 2))])"
    using e run by simp
  show ?thesis
    by (intro conjI) (fact q m l e f)+
qed

section \<open>Order of the credential check and the query check\<close>

text \<open>
  C10. The claim: the missing-argument error is reported only when a credential is
  available. The run below breaks it. The environment variable is set but empty; the
  first invocation reports the missing credential, yet line 120 has stored the empty
  string in the global, so on the second invocation line 119 skips the check and an
  absent query raises the missing-argument \<^verbatim>\<open>ValueError\<close>, with no credential at hand.
\<close>

theorem empty_key_cached_then_missing_argument:
  "getenv empty_key_world (ascii ''MAPS_API_KEY'') = Some [] \<and>
   startup empty_key_world = \<lparr>MAPS_API_KEY = None\<rparr> \<and>
   handle_search_places empty_key_world \<lparr>MAPS_API_KEY = None\<rparr> example_arguments =
     (\<lparr>MAPS_API_KEY = Some []\<rparr>, [],
      Returns [TextContent (Dumps (JDict [(ascii ''error'', JStr MSG_NO_KEY)]) None)]) \<and>
   handle_search_places empty_key_world \<lparr>MAPS_API_KEY = Some []\<rparr> [] =
     (\<lparr>MAPS_API_KEY = Some []\<rparr>, [], Raises (ValueError MSG_NO_QUERY))"
  by (simp add: empty_key_world_def example_world_def startup_def handle_search_places_def
      search_with_key_def arg_query_def dict_get_def error_result_def Let_def)

end
